theory Spec2Isabelle
  imports Main "HOL-Library.Sublist"
begin

section \<open>JSON values and Python dictionaries\<close>

text \<open>
  The values that \<^verbatim>\<open>response.json()\<close> and \<^verbatim>\<open>json.load\<close> produce and that
  \<^verbatim>\<open>json.dumps\<close> prints. Numbers are integers here (the client never computes with a
  number of the service). A Python \<^verbatim>\<open>dict\<close> with string keys is an association list in
  insertion order.
\<close>

datatype json =
    JNull
  | JBool bool
  | JInt int
  | JStr string
  | JList "json list"
  | JObj "(string \<times> json) list"

type_synonym dict = "(string \<times> json) list"

text \<open>\<^verbatim>\<open>d.get(k)\<close>: the value stored under \<open>k\<close>, or nothing.\<close>

definition dict_get :: "dict \<Rightarrow> string \<Rightarrow> json option" where
  "dict_get d k = map_of d k"

text \<open>\<^verbatim>\<open>d.get(k, default)\<close>.\<close>

definition dict_get_default :: "dict \<Rightarrow> string \<Rightarrow> json \<Rightarrow> json" where
  "dict_get_default d k dflt = (case dict_get d k of None \<Rightarrow> dflt | Some v \<Rightarrow> v)"

text \<open>\<^verbatim>\<open>d[k] = v\<close>: an existing key keeps its position, a new key goes last.\<close>

fun dict_set :: "dict \<Rightarrow> string \<Rightarrow> json \<Rightarrow> dict" where
  "dict_set [] k v = [(k, v)]"
| "dict_set ((k', v') # d) k v =
     (if k' = k then (k, v) # d else (k', v') # dict_set d k v)"

text \<open>\<^verbatim>\<open>d.update(other)\<close>: the entries of \<open>other\<close> are stored in their order.\<close>

fun dict_update :: "dict \<Rightarrow> dict \<Rightarrow> dict" where
  "dict_update d [] = d"
| "dict_update d ((k, v) # other) = dict_update (dict_set d k v) other"

definition dict_keys :: "dict \<Rightarrow> string list" where
  "dict_keys d = map fst d"

section \<open>Strings\<close>

text \<open>
  A Python \<^verbatim>\<open>str\<close> is represented by its UTF-8 encoding: the empty string is the empty
  list, and one valid encoding occurs in another as a block of bytes exactly when the one
  string occurs in the other as a block of characters. \<^verbatim>\<open>str.lower()\<close> follows the
  Unicode case mappings, which this file does not define: it is the function
  \<open>str_lower\<close> of the world below.
\<close>

text \<open>\<^verbatim>\<open>s in t\<close> on strings: \<open>s\<close> occurs in \<open>t\<close> as a contiguous block.\<close>

fun contains :: "string \<Rightarrow> string \<Rightarrow> bool" where
  "contains s [] = (s = [])"
| "contains s (c # cs) = (prefix s (c # cs) \<or> contains s cs)"

text \<open>\<^verbatim>\<open>str(n)\<close> for a length: the decimal digits.\<close>

definition digit_chr :: "nat \<Rightarrow> char" where
  "digit_chr d = char_of (48 + d)"

function str_nat :: "nat \<Rightarrow> string" where
  "str_nat n = (if n < 10 then [digit_chr n] else str_nat (n div 10) @ [digit_chr (n mod 10)])"
  by pat_completeness auto
termination
  by (relation "measure id") auto

declare str_nat.simps [simp del]

section \<open>Exceptions, requests and what a command leaves behind\<close>

datatype py_exception =
    RequestException string
  | ResponseJSONDecodeError string
  | JSONDecodeError string
  | FileNotFoundError string
  | OSError string
  | UnicodeDecodeError string
  | KeyError string
  | AttributeError string
  | TypeError string
  | ValueError string

text \<open>
  \<open>ResponseJSONDecodeError\<close> is \<^verbatim>\<open>requests.exceptions.JSONDecodeError\<close>, raised by
  \<^verbatim>\<open>response.json()\<close> on a body that is not JSON: it is a \<^verbatim>\<open>RequestException\<close> and a
  \<^verbatim>\<open>json.JSONDecodeError\<close> at once, so a handler of either catches it.

  A request of the session: the \<^verbatim>\<open>X-API-Key\<close> header, the URL, and the JSON body of a POST.
  \<^verbatim>\<open>session.post(url, json=data)\<close> sends no body when \<open>data\<close> is \<^verbatim>\<open>None\<close>.
\<close>

datatype request =
    GET string string
  | POST string string json
  | POST_EMPTY string string

definition session_post :: "string \<Rightarrow> string \<Rightarrow> json \<Rightarrow> request" where
  "session_post api_key url data =
     (if data = JNull then POST_EMPTY api_key url else POST api_key url data)"

text \<open>
  What reaches standard output: \<^verbatim>\<open>click.echo(s)\<close>, \<^verbatim>\<open>click.echo(tabulate(rows,
  headers=headers, tablefmt="grid"))\<close> with the headers and the rows handed to
  \<^verbatim>\<open>tabulate\<close>, and a \<^verbatim>\<open>json.dumps(value, indent=n)\<close> that is echoed or printed.
\<close>

datatype printed =
    Echo string
  | Grid "string list" "json list list"
  | Dumps nat json

text \<open>
  How the process ends: normally; with a \<^verbatim>\<open>click.ClickException\<close>, which click reports as
  the one line \<^verbatim>\<open>Error: message\<close> with exit status 1; with a usage error of click's
  argument parsing (exit status 2); or with an exception nobody caught (a traceback, exit
  status 1).
\<close>

datatype exit =
    Ok
  | ClickException string
  | UsageError string
  | Uncaught py_exception

record outcome =
  calls :: "request list"
  out :: "printed list"
  status :: exit

text \<open>
  Everything the source does not define. A request fails in \<^verbatim>\<open>session.get\<close>,
  \<^verbatim>\<open>session.post\<close> or \<^verbatim>\<open>raise_for_status\<close> with a \<^verbatim>\<open>requests.RequestException\<close>
  (\<open>RequestFailed\<close> with its text), or its body is not JSON and \<^verbatim>\<open>response.json()\<close>
  raises (\<open>BodyNotJSON\<close>), or it yields the decoded body, typed as the client's
  annotations say (\<^verbatim>\<open>List[Dict]\<close> for the model list, \<^verbatim>\<open>Dict\<close> for the statistics); a
  JSON body of another type is outside the model. \<open>read_file\<close> is \<^verbatim>\<open>open(path)\<close>
  followed by reading the text, \<open>json_loads\<close> the parser of \<^verbatim>\<open>json.load\<close> (\<open>Inl\<close>
  carries the text of its \<^verbatim>\<open>JSONDecodeError\<close>), \<open>str_lower\<close> is \<^verbatim>\<open>str.lower()\<close>, and
  \<open>rand_below N\<close> is the value the random generator gives when one of \<open>N\<close> equally
  likely outcomes is to be chosen.
\<close>

datatype http_failure =
    RequestFailed string
  | BodyNotJSON string

record world =
  http_list :: "request \<Rightarrow> http_failure + dict list"
  http_dict :: "request \<Rightarrow> http_failure + dict"
  http_json :: "request \<Rightarrow> http_failure + json"
  path_exists :: "string \<Rightarrow> bool"
  read_file :: "string \<Rightarrow> py_exception + string"
  json_loads :: "string \<Rightarrow> string + json"
  str_lower :: "string \<Rightarrow> string"
  rand_below :: "nat \<Rightarrow> nat"

definition BASE_URL :: string where
  "BASE_URL = ''https://agentcomparer.com''"

section \<open>ApiClient\<close>

definition request_result :: "http_failure + 'a \<Rightarrow> py_exception + 'a" where
  "request_result r =
     (case r of
        Inl (RequestFailed msg) \<Rightarrow> Inl (RequestException msg)
      | Inl (BodyNotJSON msg) \<Rightarrow> Inl (ResponseJSONDecodeError msg)
      | Inr v \<Rightarrow> Inr v)"

definition get_models :: "world \<Rightarrow> string \<Rightarrow> string \<Rightarrow> request \<times> (py_exception + dict list)" where
  "get_models w api_key base =
     (let rq = GET api_key (base @ ''/api/models/list'')
      in (rq, request_result (http_list w rq)))"

definition get_stats :: "world \<Rightarrow> string \<Rightarrow> string \<Rightarrow> request \<times> (py_exception + dict)" where
  "get_stats w api_key base =
     (let rq = GET api_key (base @ ''/api/models/stats'')
      in (rq, request_result (http_dict w rq)))"

text \<open>
  The keys of \<^verbatim>\<open>counts\<close>: a list or an object is unhashable, and Python's \<^verbatim>\<open>==\<close> on keys
  identifies \<^verbatim>\<open>True\<close> with 1 and \<^verbatim>\<open>False\<close> with 0.
\<close>

fun hashable :: "json \<Rightarrow> bool" where
  "hashable (JList _) = False"
| "hashable (JObj _) = False"
| "hashable _ = True"

fun key_norm :: "json \<Rightarrow> json" where
  "key_norm (JBool b) = JInt (if b then 1 else 0)"
| "key_norm v = v"

definition key_eq :: "json \<Rightarrow> json \<Rightarrow> bool" where
  "key_eq a b = (key_norm a = key_norm b)"

text \<open>\<^verbatim>\<open>counts[provider] += 1\<close> on a \<^verbatim>\<open>defaultdict(int)\<close>.\<close>

fun incr :: "(json \<times> nat) list \<Rightarrow> json \<Rightarrow> (json \<times> nat) list" where
  "incr [] p = [(p, 1)]"
| "incr ((k, c) # counts) p =
     (if key_eq k p then (k, c + 1) # counts else (k, c) # incr counts p)"

fun count_providers :: "(json \<times> nat) list \<Rightarrow> dict list \<Rightarrow> py_exception + (json \<times> nat) list" where
  "count_providers counts [] = Inr counts"
| "count_providers counts (m # ms) =
     (case dict_get m ''provider'' of
        None \<Rightarrow> Inl (KeyError ''provider'')
      | Some p \<Rightarrow>
          if hashable p then count_providers (incr counts p) ms
          else Inl (TypeError ''unhashable type''))"

definition get_providers ::
  "world \<Rightarrow> string \<Rightarrow> string \<Rightarrow> request \<times> (py_exception + (json \<times> nat) list)" where
  "get_providers w api_key base =
     (case get_models w api_key base of
        (rq, Inl e) \<Rightarrow> (rq, Inl e)
      | (rq, Inr models) \<Rightarrow> (rq, count_providers [] models))"

text \<open>The criteria of a search: every field is \<^verbatim>\<open>None\<close> unless its flag was given.\<close>

record criteria =
  provider :: "string option"
  min_context :: "int option"
  max_context :: "int option"
  min_output_tokens :: "int option"
  max_output_tokens :: "int option"
  tools :: "bool option"
  multilingual :: "bool option"
  audio :: "bool option"
  vision :: "bool option"
  reasoning :: "bool option"
  fine_tuning :: "bool option"
  streaming :: "bool option"

definition json_str :: "string option \<Rightarrow> json" where
  "json_str v = (case v of None \<Rightarrow> JNull | Some s \<Rightarrow> JStr s)"

definition json_int :: "int option \<Rightarrow> json" where
  "json_int v = (case v of None \<Rightarrow> JNull | Some i \<Rightarrow> JInt i)"

definition json_bool :: "bool option \<Rightarrow> json" where
  "json_bool v = (case v of None \<Rightarrow> JNull | Some b \<Rightarrow> JBool b)"

definition search_payload :: "criteria \<Rightarrow> dict" where
  "search_payload c =
     [(''metadata'', JObj [(''agent_id'', JStr ''cli''), (''task_id'', JStr ''search'')]),
      (''provider'', json_str (provider c)),
      (''min_context'', json_int (min_context c)),
      (''max_context'', json_int (max_context c)),
      (''min_output_tokens'', json_int (min_output_tokens c)),
      (''max_output_tokens'', json_int (max_output_tokens c)),
      (''tools'', json_bool (tools c)),
      (''multilingual'', json_bool (multilingual c)),
      (''audio'', json_bool (audio c)),
      (''vision'', json_bool (vision c)),
      (''reasoning'', json_bool (reasoning c)),
      (''fine_tuning'', json_bool (fine_tuning c)),
      (''realtime_streaming'', json_bool (streaming c))]"

definition search_models ::
  "world \<Rightarrow> string \<Rightarrow> string \<Rightarrow> criteria \<Rightarrow> request \<times> (py_exception + json)" where
  "search_models w api_key base c =
     (let rq = session_post api_key (base @ ''/api/agents/search'') (JObj (search_payload c))
      in (rq, request_result (http_json w rq)))"

definition compare_models ::
  "world \<Rightarrow> string \<Rightarrow> string \<Rightarrow> json \<Rightarrow> request \<times> (py_exception + json)" where
  "compare_models w api_key base data =
     (let rq = session_post api_key (base @ ''/api/agents/compare'') data
      in (rq, request_result (http_json w rq)))"

definition calculate_price ::
  "world \<Rightarrow> string \<Rightarrow> string \<Rightarrow> json \<Rightarrow> request \<times> (py_exception + json)" where
  "calculate_price w api_key base data =
     (let rq = session_post api_key (base @ ''/api/agents/calculate'') data
      in (rq, request_result (http_json w rq)))"

section \<open>The commands\<close>

text \<open>
  \<^verbatim>\<open>except requests.RequestException as e: raise click.ClickException(...)\<close>: the only
  handler of \<^verbatim>\<open>list_models\<close>, \<^verbatim>\<open>list_providers\<close>, \<^verbatim>\<open>stats\<close> and \<^verbatim>\<open>search\<close>. Any
  exception that is no \<^verbatim>\<open>RequestException\<close> leaves the command uncaught.
\<close>

definition except_request :: "py_exception \<Rightarrow> exit" where
  "except_request e =
     (case e of
        RequestException msg \<Rightarrow> ClickException (''API request failed: '' @ msg)
      | ResponseJSONDecodeError msg \<Rightarrow> ClickException (''API request failed: '' @ msg)
      | _ \<Rightarrow> Uncaught e)"

text \<open>\<^verbatim>\<open>model.get(k, '').lower()\<close>: only a string has the method.\<close>

definition lower_field :: "world \<Rightarrow> dict \<Rightarrow> string \<Rightarrow> py_exception + string" where
  "lower_field w model k =
     (case dict_get_default model k (JStr []) of
        JStr s \<Rightarrow> Inr (str_lower w s)
      | _ \<Rightarrow> Inl (AttributeError ''lower''))"

text \<open>The condition of the comprehension; \<^verbatim>\<open>or\<close> stops at the first field that matches.\<close>

definition model_matches :: "world \<Rightarrow> string \<Rightarrow> dict \<Rightarrow> py_exception + bool" where
  "model_matches w search model =
     (case lower_field w model ''provider'' of
        Inl e \<Rightarrow> Inl e
      | Inr p \<Rightarrow>
          if contains search p then Inr True
          else (case lower_field w model ''model_family'' of
                  Inl e \<Rightarrow> Inl e
                | Inr f \<Rightarrow>
                    if contains search f then Inr True
                    else (case lower_field w model ''model_name'' of
                            Inl e \<Rightarrow> Inl e
                          | Inr n \<Rightarrow> Inr (contains search n))))"

fun filter_models :: "world \<Rightarrow> string \<Rightarrow> dict list \<Rightarrow> py_exception + dict list" where
  "filter_models w search [] = Inr []"
| "filter_models w search (model # models) =
     (case model_matches w search model of
        Inl e \<Rightarrow> Inl e
      | Inr b \<Rightarrow>
          (case filter_models w search models of
             Inl e \<Rightarrow> Inl e
           | Inr kept \<Rightarrow> Inr (if b then model # kept else kept)))"

definition model_row :: "dict \<Rightarrow> json list" where
  "model_row model =
     [dict_get_default model ''provider'' (JStr ''N/A''),
      dict_get_default model ''model_family'' (JStr ''N/A''),
      dict_get_default model ''model_name'' (JStr ''N/A'')]"

definition list_models :: "world \<Rightarrow> string \<Rightarrow> string \<Rightarrow> string \<Rightarrow> outcome" where
  "list_models w api_key base search =
     (case get_models w api_key base of
        (rq, Inl e) \<Rightarrow> \<lparr>calls = [rq], out = [], status = except_request e\<rparr>
      | (rq, Inr models) \<Rightarrow>
          (let search' = (if search \<noteq> [] then str_lower w search else search) in
           case (if search \<noteq> [] then filter_models w search' models else Inr models) of
             Inl e \<Rightarrow> \<lparr>calls = [rq], out = [], status = except_request e\<rparr>
           | Inr models' \<Rightarrow>
               if models' = [] then
                 \<lparr>calls = [rq],
                  out = [Echo (if search' \<noteq> []
                               then ''No models found matching search: '' @ search'
                               else ''No models available'')],
                  status = Ok\<rparr>
               else
                 \<lparr>calls = [rq],
                  out = [Grid [''Provider'', ''Model Family'', ''Model Name'']
                           (map model_row models'),
                         Echo (CHR 0x0A # ''Total models: '' @ str_nat (length models'))],
                  status = Ok\<rparr>))"

definition list_providers :: "world \<Rightarrow> string \<Rightarrow> string \<Rightarrow> outcome" where
  "list_providers w api_key base =
     (case get_providers w api_key base of
        (rq, Inl e) \<Rightarrow> \<lparr>calls = [rq], out = [], status = except_request e\<rparr>
      | (rq, Inr providers) \<Rightarrow>
          if providers = [] then
            \<lparr>calls = [rq], out = [Echo ''No providers available''], status = Ok\<rparr>
          else
            \<lparr>calls = [rq],
             out = [Grid [''Provider'', ''Models'']
                      (map (\<lambda>(provider, count). [provider, JInt (int count)]) providers),
                    Echo (CHR 0x0A # ''Total providers: '' @ str_nat (length providers))],
             status = Ok\<rparr>)"

definition stats :: "world \<Rightarrow> string \<Rightarrow> string \<Rightarrow> outcome" where
  "stats w api_key base =
     (case get_stats w api_key base of
        (rq, Inl e) \<Rightarrow> \<lparr>calls = [rq], out = [], status = except_request e\<rparr>
      | (rq, Inr st) \<Rightarrow>
          \<lparr>calls = [rq],
           out = [Grid [''Provider'', ''Model Count'']
                    (map (\<lambda>(provider, count). [JStr provider, count]) st)],
           status = Ok\<rparr>)"

definition search :: "world \<Rightarrow> string \<Rightarrow> string \<Rightarrow> criteria \<Rightarrow> outcome" where
  "search w api_key base c =
     (case search_models w api_key base c of
        (rq, Inl e) \<Rightarrow> \<lparr>calls = [rq], out = [], status = except_request e\<rparr>
      | (rq, Inr results) \<Rightarrow>
          \<lparr>calls = [rq], out = [Echo ''Search Results:'', Dumps 2 results], status = Ok\<rparr>)"

text \<open>
  The two handlers of \<^verbatim>\<open>compare\<close> and \<^verbatim>\<open>calculate\<close>:
  \<^verbatim>\<open>except (json.JSONDecodeError, FileNotFoundError)\<close>, then
  \<^verbatim>\<open>except requests.RequestException\<close>. The first one also catches the
  \<^verbatim>\<open>JSONDecodeError\<close> of a response that is not JSON.
\<close>

definition except_file :: "py_exception \<Rightarrow> exit" where
  "except_file e =
     (case e of
        JSONDecodeError msg \<Rightarrow> ClickException (''Error reading input file: '' @ msg)
      | ResponseJSONDecodeError msg \<Rightarrow> ClickException (''Error reading input file: '' @ msg)
      | FileNotFoundError msg \<Rightarrow> ClickException (''Error reading input file: '' @ msg)
      | RequestException msg \<Rightarrow> ClickException (''API request failed: '' @ msg)
      | _ \<Rightarrow> Uncaught e)"

text \<open>\<^verbatim>\<open>with open(spec) as f: data = json.load(f)\<close>.\<close>

definition load_spec :: "world \<Rightarrow> string \<Rightarrow> py_exception + json" where
  "load_spec w spec =
     (case read_file w spec of
        Inl e \<Rightarrow> Inl e
      | Inr body \<Rightarrow>
          (case json_loads w body of
             Inl msg \<Rightarrow> Inl (JSONDecodeError msg)
           | Inr data \<Rightarrow> Inr data))"

definition compare :: "world \<Rightarrow> string \<Rightarrow> string \<Rightarrow> string \<Rightarrow> outcome" where
  "compare w api_key base spec =
     (case load_spec w spec of
        Inl e \<Rightarrow> \<lparr>calls = [], out = [], status = except_file e\<rparr>
      | Inr data \<Rightarrow>
          (case compare_models w api_key base data of
             (rq, Inl e) \<Rightarrow> \<lparr>calls = [rq], out = [], status = except_file e\<rparr>
           | (rq, Inr results) \<Rightarrow> \<lparr>calls = [rq], out = [Dumps 2 results], status = Ok\<rparr>))"

definition calculate :: "world \<Rightarrow> string \<Rightarrow> string \<Rightarrow> string \<Rightarrow> outcome" where
  "calculate w api_key base spec =
     (case load_spec w spec of
        Inl e \<Rightarrow> \<lparr>calls = [], out = [], status = except_file e\<rparr>
      | Inr data \<Rightarrow>
          (case calculate_price w api_key base data of
             (rq, Inl e) \<Rightarrow> \<lparr>calls = [rq], out = [], status = except_file e\<rparr>
           | (rq, Inr results) \<Rightarrow> \<lparr>calls = [rq], out = [Dumps 2 results], status = Ok\<rparr>))"

text \<open>
  \<^verbatim>\<open>random.sample(models, 2)\<close>, by the contract of the library: a \<^verbatim>\<open>ValueError\<close> on
  fewer than two models; otherwise the elements at two different positions of the list,
  in the order chosen, every ordered pair of different positions being equally likely.
  \<open>sample_positions n\<close> lists these equally likely outcomes for a list of length \<open>n\<close>, and
  the generator chooses among them.
\<close>

definition sample_positions :: "nat \<Rightarrow> (nat \<times> nat) list" where
  "sample_positions n = filter (\<lambda>(i, j). i \<noteq> j) (List.product [0..<n] [0..<n])"

definition random_sample :: "world \<Rightarrow> dict list \<Rightarrow> py_exception + dict \<times> dict" where
  "random_sample w models =
     (let n = length models in
      if n < 2 then Inl (ValueError ''Sample larger than population or is negative'')
      else (case sample_positions n ! rand_below w (n * (n - 1)) of
              (i, j) \<Rightarrow> Inr (models ! i, models ! j)))"

datatype target = TCompare | TCalculate

text \<open>\<^verbatim>\<open>sample_spec\<close> has no \<^verbatim>\<open>try\<close>: an exception of its calls is caught by nobody.\<close>

definition sample_spec :: "world \<Rightarrow> string \<Rightarrow> string \<Rightarrow> target \<Rightarrow> outcome" where
  "sample_spec w api_key base command =
     (case get_models w api_key base of
        (rq, Inl e) \<Rightarrow> \<lparr>calls = [rq], out = [], status = Uncaught e\<rparr>
      | (rq, Inr models) \<Rightarrow>
          (case random_sample w models of
             Inl e \<Rightarrow> \<lparr>calls = [rq], out = [], status = Uncaught e\<rparr>
           | Inr (m0, m1) \<Rightarrow>
               (case command of
                  TCompare \<Rightarrow>
                    \<lparr>calls = [rq],
                     out = [Dumps 4 (JObj
                       [(''models'', JList [JObj m0, JObj m1]),
                        (''input_tokens'', JInt 1000),
                        (''output_tokens'', JInt 500),
                        (''metadata'', JObj
                           [(''agent_id'', JStr ''cli-sample''),
                            (''task_id'', JStr ''comparison-test''),
                            (''message_id'', JStr ''msg123''),
                            (''thread_id'', JStr ''thread456'')])])],
                     status = Ok\<rparr>
                | TCalculate \<Rightarrow>
                    (let m0' = dict_update m0
                                 [(''input_tokens'', JInt 1000), (''output_tokens'', JInt 500)];
                         m1' = dict_update m1
                                 [(''input_tokens'', JInt 2000), (''output_tokens'', JInt 1000)]
                     in \<lparr>calls = [rq],
                         out = [Dumps 4 (JObj
                           [(''calculations'', JList [JObj m0', JObj m1']),
                            (''metadata'', JObj
                               [(''agent_id'', JStr ''cli-sample''),
                                (''task_id'', JStr ''calculation-test''),
                                (''message_id'', JStr ''msg789''),
                                (''thread_id'', JStr ''thread012'')])])],
                         status = Ok\<rparr>))))"

section \<open>The group callback and the dispatch\<close>

text \<open>
  \<^verbatim>\<open>API_KEY = os.getenv('COMPARER_API_KEY')\<close> is \<^verbatim>\<open>None\<close> or a string; \<^verbatim>\<open>not API_KEY\<close> holds
  for \<^verbatim>\<open>None\<close> and for the empty string, \<^verbatim>\<open>if server\<close> likewise fails for both. The
  callback \<^verbatim>\<open>cli\<close> raises, or leaves the key and the base URL the commands use.
\<close>

definition truthy :: "string option \<Rightarrow> bool" where
  "truthy v = (case v of None \<Rightarrow> False | Some s \<Rightarrow> s \<noteq> [])"

definition cli :: "string option \<Rightarrow> string option \<Rightarrow> string + string \<times> string" where
  "cli API_KEY server =
     (if \<not> truthy API_KEY then Inl ''COMPARER_API_KEY environment variable not set''
      else Inr (the API_KEY, if truthy server then the server else BASE_URL))"

text \<open>
  An invocation names one subcommand with its parsed arguments. Click runs the group
  callback first, then parses the subcommand's arguments (\<^verbatim>\<open>click.Path(exists=True)\<close>
  rejects a path that does not exist), then runs the subcommand.
\<close>

datatype command =
    ListModels string
  | ListProviders
  | Stats
  | Search criteria
  | Compare string
  | Calculate string
  | SampleSpec target

definition no_such_path :: "string \<Rightarrow> outcome" where
  "no_such_path spec =
     \<lparr>calls = [], out = [], status = UsageError (''Path does not exist: '' @ spec)\<rparr>"

definition invoke :: "world \<Rightarrow> string option \<Rightarrow> string option \<Rightarrow> command \<Rightarrow> outcome" where
  "invoke w API_KEY server cmd =
     (case cli API_KEY server of
        Inl msg \<Rightarrow> \<lparr>calls = [], out = [], status = ClickException msg\<rparr>
      | Inr (api_key, base) \<Rightarrow>
          (case cmd of
             ListModels s \<Rightarrow> list_models w api_key base s
           | ListProviders \<Rightarrow> list_providers w api_key base
           | Stats \<Rightarrow> stats w api_key base
           | Search c \<Rightarrow> search w api_key base c
           | Compare spec \<Rightarrow>
               if path_exists w spec then compare w api_key base spec else no_such_path spec
           | Calculate spec \<Rightarrow>
               if path_exists w spec then calculate w api_key base spec else no_such_path spec
           | SampleSpec t \<Rightarrow> sample_spec w api_key base t))"

section \<open>What the specification speaks of\<close>

text \<open>
  The model records of the data model carry text under \<^verbatim>\<open>provider\<close>, \<^verbatim>\<open>model_family\<close>
  and \<^verbatim>\<open>model_name\<close>. \<open>text_fields\<close> says that each of the three, when the record has
  it, is a string; \<open>has_text_provider\<close> that the record has a provider and it is a string.
  \<open>field_text\<close> is the text of a field, empty for a field the record lacks.
\<close>

fun is_text :: "json \<Rightarrow> bool" where
  "is_text (JStr _) = True"
| "is_text _ = False"

definition name_fields :: "string list" where
  "name_fields = [''provider'', ''model_family'', ''model_name'']"

definition text_fields :: "dict \<Rightarrow> bool" where
  "text_fields m =
     list_all (\<lambda>k. case dict_get m k of None \<Rightarrow> True | Some v \<Rightarrow> is_text v) name_fields"

definition has_text_provider :: "dict \<Rightarrow> bool" where
  "has_text_provider m = (case dict_get m ''provider'' of Some (JStr _) \<Rightarrow> True | _ \<Rightarrow> False)"

definition field_text :: "dict \<Rightarrow> string \<Rightarrow> string" where
  "field_text m k = (case dict_get m k of Some (JStr v) \<Rightarrow> v | _ \<Rightarrow> [])"



text \<open>
  The records that \<^verbatim>\<open>list_models\<close> shows when a missing field is read as the empty
  string, and the row of a record with \<^verbatim>\<open>N/A\<close> for each missing field.
\<close>

definition shown_models :: "world \<Rightarrow> string \<Rightarrow> dict list \<Rightarrow> dict list" where
  "shown_models w s models =
     (if s = [] then models
      else filter
             (\<lambda>m. list_ex (\<lambda>k. contains (str_lower w s) (str_lower w (field_text m k)))
                    name_fields)
             models)"

definition shown_row :: "dict \<Rightarrow> json list" where
  "shown_row m = map (\<lambda>k. case dict_get m k of None \<Rightarrow> JStr ''N/A'' | Some v \<Rightarrow> v) name_fields"

text \<open>
  The provider values that occur in a model list, the records of one provider, and the
  count a table of counts holds for a key.
\<close>

definition provider_values :: "dict list \<Rightarrow> json set" where
  "provider_values models = set (List.map_filter (\<lambda>m. dict_get m ''provider'') models)"

definition models_of_provider :: "json \<Rightarrow> dict list \<Rightarrow> dict list" where
  "models_of_provider p models = filter (\<lambda>m. dict_get m ''provider'' = Some p) models"

definition tally :: "(json \<times> nat) list \<Rightarrow> json \<Rightarrow> nat" where
  "tally counts p = (case map_of counts p of None \<Rightarrow> 0 | Some c \<Rightarrow> c)"

text \<open>The object a request carries as its JSON body; empty when it carries none.\<close>

definition posted_body :: "request \<Rightarrow> dict" where
  "posted_body rq = (case rq of POST _ _ (JObj d) \<Rightarrow> d | _ \<Rightarrow> [])"

text \<open>\<^verbatim>\<open>search\<close> without any flag: click leaves every option at \<^verbatim>\<open>None\<close>.\<close>

definition no_flags :: criteria where
  "no_flags =
     \<lparr>provider = None, min_context = None, max_context = None, min_output_tokens = None,
      max_output_tokens = None, tools = None, multilingual = None, audio = None,
      vision = None, reasoning = None, fine_tuning = None, streaming = None\<rparr>"

section \<open>Inputs for the examples\<close>

text \<open>
  On ASCII text \<^verbatim>\<open>str.lower()\<close> turns the letters A to Z into a to z and leaves every
  other character; the texts of the examples are ASCII.
\<close>

definition ascii_lower_chr :: "char \<Rightarrow> char" where
  "ascii_lower_chr c =
     (let n = of_char c :: nat in if 65 \<le> n \<and> n \<le> 90 then char_of (n + 32) else c)"

definition ascii_lower :: "string \<Rightarrow> string" where
  "ascii_lower s = map ascii_lower_chr s"

text \<open>
  Three models of two providers, the second without a \<^verbatim>\<open>model_family\<close>; a service that
  answers, with a spec file that is not JSON and the generator choosing the outcome 4 (the
  positions 2 and 0 among three); and a service that cannot be reached.
\<close>

definition example_models :: "dict list" where
  "example_models =
     [[(''provider'', JStr ''OpenAI''), (''model_family'', JStr ''GPT''),
       (''model_name'', JStr ''GPT-4'')],
      [(''provider'', JStr ''OpenAI''), (''model_name'', JStr ''o1'')],
      [(''provider'', JStr ''Anthropic''), (''model_family'', JStr ''Claude''),
       (''model_name'', JStr ''Sonnet''), (''input_tokens'', JInt 7)]]"

definition example_world :: world where
  "example_world =
     \<lparr>http_list = (\<lambda>rq. Inr example_models),
      http_dict = (\<lambda>rq. Inr [(''OpenAI'', JInt 2), (''Anthropic'', JInt 1)]),
      http_json = (\<lambda>rq. Inr (JList [])),
      path_exists = (\<lambda>p. p = ''spec.json''),
      read_file = (\<lambda>p. if p = ''spec.json'' then Inr ''{not json''
                         else Inl (FileNotFoundError ''No such file or directory'')),
      json_loads = (\<lambda>t. Inl ''Expecting property name enclosed in double quotes''),
      str_lower = ascii_lower,
      rand_below = (\<lambda>N. 4)\<rparr>"

definition offline_world :: world where
  "offline_world =
     \<lparr>http_list = (\<lambda>rq. Inl (RequestFailed ''Connection refused'')),
      http_dict = (\<lambda>rq. Inl (RequestFailed ''Connection refused'')),
      http_json = (\<lambda>rq. Inl (RequestFailed ''Connection refused'')),
      path_exists = (\<lambda>p. True),
      read_file = (\<lambda>p. Inr ''{}''),
      json_loads = (\<lambda>t. Inr (JObj [])),
      str_lower = ascii_lower,
      rand_below = (\<lambda>N. 0)\<rparr>"

text \<open>
  A model list in which one record occurs twice beside a different one, with the generator
  choosing the outcome 0 (the positions 0 and 1).
\<close>

definition twin_record :: dict where
  "twin_record = [(''provider'', JStr ''OpenAI''), (''model_name'', JStr ''GPT-4'')]"

definition twin_models :: "dict list" where
  "twin_models =
     [twin_record, twin_record,
      [(''provider'', JStr ''Anthropic''), (''model_name'', JStr ''Sonnet'')]]"

definition twin_world :: world where
  "twin_world = example_world\<lparr>http_list := (\<lambda>rq. Inr twin_models), rand_below := (\<lambda>N. 0)\<rparr>"


section \<open>Lemmas about strings and the filter of \<^verbatim>\<open>list_models\<close>\<close>




lemma lower_field_text:
  assumes "text_fields m" and "k \<in> set name_fields"
  shows "lower_field w m k = Inr (str_lower w (field_text m k))"
  using assms
  by (auto simp: text_fields_def lower_field_def field_text_def dict_get_default_def
      list_all_iff split: option.splits json.splits)

lemma lower_field_missing: "dict_get m k = None \<Longrightarrow> lower_field w m k = Inr (str_lower w [])"
  by (simp add: lower_field_def dict_get_default_def)

lemma model_matches_text:
  assumes "text_fields m"
  shows "model_matches w s m =
           Inr (list_ex (\<lambda>k. contains s (str_lower w (field_text m k))) name_fields)"
proof -
  have "lower_field w m ''provider'' = Inr (str_lower w (field_text m ''provider''))"
   and "lower_field w m ''model_family'' = Inr (str_lower w (field_text m ''model_family''))"
   and "lower_field w m ''model_name'' = Inr (str_lower w (field_text m ''model_name''))"
    using assms by (simp_all add: lower_field_text name_fields_def)
  then show ?thesis
    by (simp add: model_matches_def name_fields_def)
qed

lemma filter_models_text:
  assumes "\<forall>m\<in>set models. text_fields m"
  shows "filter_models w s models =
           Inr (filter (\<lambda>m. list_ex (\<lambda>k. contains s (str_lower w (field_text m k))) name_fields)
                  models)"
  using assms by (induction models) (simp_all add: model_matches_text)

lemma list_models_text:
  assumes "S = [] \<or> (\<forall>m\<in>set models. text_fields m)"
    and "http_list w (GET api_key (base @ ''/api/models/list'')) = Inr models"
  shows "list_models w api_key base S =
     (if shown_models w S models = [] then
        \<lparr>calls = [GET api_key (base @ ''/api/models/list'')],
         out = [Echo (if S \<noteq> [] \<and> str_lower w S \<noteq> []
                      then ''No models found matching search: '' @ str_lower w S
                      else ''No models available'')],
         status = Ok\<rparr>
      else
        \<lparr>calls = [GET api_key (base @ ''/api/models/list'')],
         out = [Grid [''Provider'', ''Model Family'', ''Model Name'']
                  (map model_row (shown_models w S models)),
                Echo (CHR 0x0A # ''Total models: ''
                        @ str_nat (length (shown_models w S models)))],
         status = Ok\<rparr>)"
proof (cases "S = []")
  case True
  then show ?thesis
    using assms(2)
    by (simp add: list_models_def get_models_def request_result_def shown_models_def)
next
  case False
  with assms(1) have "\<forall>m\<in>set models. text_fields m" by simp
  from filter_models_text [OF this, of w "str_lower w S"] False assms(2)
  show ?thesis
    by (simp add: list_models_def get_models_def request_result_def shown_models_def Let_def)
qed


lemma model_row_shown: "model_row m = shown_row m"
  by (simp add: model_row_def shown_row_def name_fields_def dict_get_default_def)

section \<open>Lemmas about the positions of a sample\<close>

lemma set_sample_positions:
  "set (sample_positions n) = {(i, j). i < n \<and> j < n \<and> i \<noteq> j}"
  by (auto simp: sample_positions_def)

lemma distinct_sample_positions: "distinct (sample_positions n)"
  by (simp add: sample_positions_def distinct_product)

lemma length_sample_positions: "length (sample_positions n) = n * (n - 1)"
proof -
  let ?D = "(\<lambda>i. (i, i)) ` {..<n}"
  have s: "set (sample_positions n) = ({..<n} \<times> {..<n}) - ?D"
    by (auto simp: set_sample_positions)
  have d: "card ?D = n"
    by (simp add: card_image inj_on_def)
  have "length (sample_positions n) = card (set (sample_positions n))"
    by (simp add: distinct_card distinct_sample_positions)
  also have "\<dots> = card ({..<n} \<times> {..<n}) - card ?D"
    unfolding s by (rule card_Diff_subset) auto
  also have "\<dots> = n * n - n"
    by (simp add: d)
  also have "\<dots> = n * (n - 1)"
    by (simp add: diff_mult_distrib2)
  finally show ?thesis .
qed

lemma nth_sample_positions:
  assumes "r < n * (n - 1)" and "sample_positions n ! r = (i, j)"
  shows "i < n \<and> j < n \<and> i \<noteq> j"
proof -
  from assms(1) have "sample_positions n ! r \<in> set (sample_positions n)"
    by (simp add: length_sample_positions)
  with assms(2) show ?thesis
    by (simp add: set_sample_positions)
qed

section \<open>Lemmas about the provider counts\<close>

lemma key_eq_text: "is_text a \<Longrightarrow> is_text b \<Longrightarrow> key_eq a b \<longleftrightarrow> a = b"
  by (cases a; cases b) (simp_all add: key_eq_def)

lemma incr_keys:
  assumes "\<forall>k\<in>set (map fst acc). is_text k" and "is_text p"
  shows "map fst (incr acc p) = (if p \<in> set (map fst acc) then map fst acc else map fst acc @ [p])"
  using assms by (induction acc) (force simp: key_eq_text)+

lemma incr_tally:
  assumes "\<forall>k\<in>set (map fst acc). is_text k" and "is_text p"
  shows "tally (incr acc p) q = (if q = p then tally acc p + 1 else tally acc q)"
  using assms by (induction acc) (auto simp: key_eq_text tally_def)

lemma provider_values_Cons:
  "provider_values (m # ms) =
     (case dict_get m ''provider'' of None \<Rightarrow> provider_values ms
      | Some p \<Rightarrow> insert p (provider_values ms))"
  by (simp add: provider_values_def split: option.splits)

lemma count_providers_text:
  assumes "\<forall>m\<in>set ms. has_text_provider m"
    and "\<forall>k\<in>set (map fst acc). is_text k"
    and "distinct (map fst acc)"
  shows "\<exists>counts. count_providers acc ms = Inr counts
           \<and> distinct (map fst counts)
           \<and> set (map fst counts) = set (map fst acc) \<union> provider_values ms
           \<and> (\<forall>q. tally counts q = tally acc q + length (models_of_provider q ms))"
  using assms
proof (induction ms arbitrary: acc)
  case Nil
  then show ?case by (simp add: provider_values_def models_of_provider_def)
next
  case (Cons m ms)
  from Cons.prems(1) obtain s where p: "dict_get m ''provider'' = Some (JStr s)"
    by (auto simp: has_text_provider_def split: option.splits json.splits)
  let ?acc = "incr acc (JStr s)"
  have k: "map fst ?acc = (if JStr s \<in> set (map fst acc) then map fst acc else map fst acc @ [JStr s])"
    using Cons.prems(2) by (simp add: incr_keys)
  have t: "\<forall>k\<in>set (map fst ?acc). is_text k"
    unfolding k using Cons.prems(2) by auto
  have d: "distinct (map fst ?acc)"
    unfolding k using Cons.prems(3) by auto
  from Cons.prems(1) have "\<forall>m\<in>set ms. has_text_provider m" by simp
  from Cons.IH [OF this t d] obtain counts where c:
    "count_providers ?acc ms = Inr counts" "distinct (map fst counts)"
    "set (map fst counts) = set (map fst ?acc) \<union> provider_values ms"
    "\<forall>q. tally counts q = tally ?acc q + length (models_of_provider q ms)"
    by blast
  have 1: "count_providers acc (m # ms) = Inr counts"
    using p c(1) by simp
  have 2: "set (map fst counts) = set (map fst acc) \<union> provider_values (m # ms)"
    unfolding c(3) k by (auto simp: provider_values_Cons p)
  have 3: "tally counts q = tally acc q + length (models_of_provider q (m # ms))" for q
    using c(4) incr_tally [OF Cons.prems(2), of "JStr s" q] p
    by (auto simp: models_of_provider_def)
  from 1 2 3 c(2) show ?case by blast
qed

lemma incr_total: "sum_list (map snd (incr acc p)) = Suc (sum_list (map snd acc))"
  by (induction acc) auto

lemma count_providers_total:
  "count_providers acc ms = Inr counts \<Longrightarrow>
   sum_list (map snd counts) = sum_list (map snd acc) + length ms"
  by (induction ms arbitrary: acc) (auto simp: incr_total split: option.splits if_splits)

lemma count_providers_empty:
  assumes "\<forall>m\<in>set models. has_text_provider m"
  shows "\<exists>counts. count_providers [] models = Inr counts
           \<and> distinct (map fst counts)
           \<and> set (map fst counts) = provider_values models
           \<and> (\<forall>p c. (p, c) \<in> set counts \<longrightarrow> c = length (models_of_provider p models))"
proof -
  from count_providers_text [OF assms, of "[]"] obtain counts where c:
    "count_providers [] models = Inr counts" "distinct (map fst counts)"
    "set (map fst counts) = provider_values models"
    "\<forall>q. tally counts q = length (models_of_provider q models)"
    by (auto simp: tally_def)
  have "c = length (models_of_provider p models)" if "(p, c) \<in> set counts" for p c
  proof -
    from that c(2) have "map_of counts p = Some c" by simp
    then have "tally counts p = c" by (simp add: tally_def)
    with c(4) show ?thesis by simp
  qed
  with c(1,2,3) show ?thesis by blast
qed

section \<open>Lemmas about dictionaries and the examples\<close>

lemma dict_get_set: "dict_get (dict_set d k v) k' = (if k' = k then Some v else dict_get d k')"
  by (induction d) (auto simp: dict_get_def)

lemma dict_get_update_tokens:
  "dict_get (dict_update d [(''input_tokens'', a), (''output_tokens'', b)]) k =
     (if k = ''output_tokens'' then Some b
      else if k = ''input_tokens'' then Some a else dict_get d k)"
  by (simp add: dict_get_set)

lemma example_models_providers: "\<forall>m\<in>set example_models. has_text_provider m"
  by (simp add: example_models_def has_text_provider_def dict_get_def)

lemma example_world_models:
  "http_list example_world (GET ''k'' (BASE_URL @ ''/api/models/list'')) = Inr example_models"
  by (simp add: example_world_def)

lemma example_provider_values:
  "provider_values example_models = {JStr ''OpenAI'', JStr ''Anthropic''}"
  by (simp add: provider_values_def example_models_def dict_get_def)

lemma example_models_text: "\<forall>m\<in>set example_models. text_fields m"
  by (simp add: example_models_def text_fields_def name_fields_def dict_get_def)

lemma example_lower_empty: "str_lower example_world [] = []"
  by (simp add: example_world_def ascii_lower_def)

lemma sample_positions_3:
  "sample_positions 3 = [(0, 1), (0, 2), (1, 0), (1, 2), (2, 0), (2, 1)]"
  by code_simp

section \<open>Request failures\<close>

text \<open>
  Six commands turn a \<^verbatim>\<open>RequestException\<close> of their one request into a
  \<^verbatim>\<open>ClickException\<close> and print nothing; \<^verbatim>\<open>sample_spec\<close> lets it pass.
\<close>

lemma request_failure_surfaced:
  "http_list w (GET k (b @ ''/api/models/list'')) = Inl (RequestFailed msg) \<Longrightarrow>
     list_models w k b s =
       \<lparr>calls = [GET k (b @ ''/api/models/list'')], out = [],
        status = ClickException (''API request failed: '' @ msg)\<rparr>
     \<and> list_providers w k b =
       \<lparr>calls = [GET k (b @ ''/api/models/list'')], out = [],
        status = ClickException (''API request failed: '' @ msg)\<rparr>"
  "http_dict w (GET k (b @ ''/api/models/stats'')) = Inl (RequestFailed msg) \<Longrightarrow>
     stats w k b =
       \<lparr>calls = [GET k (b @ ''/api/models/stats'')], out = [],
        status = ClickException (''API request failed: '' @ msg)\<rparr>"
  "http_json w (POST k (b @ ''/api/agents/search'') (JObj (search_payload c)))
     = Inl (RequestFailed msg) \<Longrightarrow>
     search w k b c =
       \<lparr>calls = [POST k (b @ ''/api/agents/search'') (JObj (search_payload c))], out = [],
        status = ClickException (''API request failed: '' @ msg)\<rparr>"
  "load_spec w spec = Inr data \<Longrightarrow>
   http_json w (session_post k (b @ ''/api/agents/compare'') data) = Inl (RequestFailed msg) \<Longrightarrow>
     compare w k b spec =
       \<lparr>calls = [session_post k (b @ ''/api/agents/compare'') data], out = [],
        status = ClickException (''API request failed: '' @ msg)\<rparr>"
  "load_spec w spec = Inr data \<Longrightarrow>
   http_json w (session_post k (b @ ''/api/agents/calculate'') data) = Inl (RequestFailed msg) \<Longrightarrow>
     calculate w k b spec =
       \<lparr>calls = [session_post k (b @ ''/api/agents/calculate'') data], out = [],
        status = ClickException (''API request failed: '' @ msg)\<rparr>"
  by (simp_all add: list_models_def list_providers_def get_providers_def get_models_def
      stats_def get_stats_def search_def search_models_def compare_def compare_models_def
      calculate_def calculate_price_def request_result_def except_request_def except_file_def
      session_post_def)

lemma sample_spec_lets_failure_pass:
  "http_list w (GET k (b @ ''/api/models/list'')) = Inl (RequestFailed msg) \<Longrightarrow>
     sample_spec w k b t =
       \<lparr>calls = [GET k (b @ ''/api/models/list'')], out = [],
        status = Uncaught (RequestException msg)\<rparr>"
  by (simp add: sample_spec_def get_models_def request_result_def)

text \<open>
  A response whose body is not JSON arrives at \<^verbatim>\<open>compare\<close> after the request was sent
  and is reported by its first handler.
\<close>

lemma compare_response_not_json:
  "load_spec w spec = Inr data \<Longrightarrow>
   http_json w (session_post k (b @ ''/api/agents/compare'') data) = Inl (BodyNotJSON msg) \<Longrightarrow>
     compare w k b spec =
       \<lparr>calls = [session_post k (b @ ''/api/agents/compare'') data], out = [],
        status = ClickException (''Error reading input file: '' @ msg)\<rparr>"
  by (simp add: compare_def compare_models_def request_result_def except_file_def)

section \<open>The claims\<close>

text \<open>
  C1, as stated: a criteria field that is unset has its key omitted from the JSON body
  that \<^verbatim>\<open>search_models\<close> sends. It fails: without any flag \<^verbatim>\<open>provider\<close> is unset, and
  the body of the one request of the search has the key \<^verbatim>\<open>provider\<close>.
\<close>

theorem search_models_omits_unset_counterexample:
  "provider no_flags = None
   \<and> calls (search example_world ''k'' BASE_URL no_flags) =
       [fst (search_models example_world ''k'' BASE_URL no_flags)]
   \<and> ''provider'' \<in> set (dict_keys (posted_body
         (fst (search_models example_world ''k'' BASE_URL no_flags))))"
  by (simp add: no_flags_def search_def search_models_def session_post_def posted_body_def
      search_payload_def dict_keys_def example_world_def request_result_def)

text \<open>
  C1, amended: whatever the criteria, the request that \<^verbatim>\<open>search_models\<close> posts to the
  search endpoint, which is the one request of the search command, carries a JSON body
  with the key \<^verbatim>\<open>metadata\<close> and all twelve criteria keys, set or not; the key of a field
  that is unset is present in that body with the value null.
\<close>

theorem search_models_posts_all_keys:
  "fst (search_models w api_key base c) =
     POST api_key (base @ ''/api/agents/search'') (JObj (search_payload c))
   \<and> calls (search w api_key base c) = [fst (search_models w api_key base c)]
   \<and> dict_keys (posted_body (fst (search_models w api_key base c))) =
     [''metadata'', ''provider'', ''min_context'', ''max_context'', ''min_output_tokens'',
      ''max_output_tokens'', ''tools'', ''multilingual'', ''audio'', ''vision'', ''reasoning'',
      ''fine_tuning'', ''realtime_streaming'']
   \<and> dict_get (posted_body (fst (search_models w api_key base (c\<lparr>provider := None\<rparr>))))
         ''provider'' = Some JNull
   \<and> dict_get (posted_body (fst (search_models w api_key base (c\<lparr>min_context := None\<rparr>))))
         ''min_context'' = Some JNull
   \<and> dict_get (posted_body (fst (search_models w api_key base (c\<lparr>max_context := None\<rparr>))))
         ''max_context'' = Some JNull
   \<and> dict_get (posted_body
         (fst (search_models w api_key base (c\<lparr>min_output_tokens := None\<rparr>))))
         ''min_output_tokens'' = Some JNull
   \<and> dict_get (posted_body
         (fst (search_models w api_key base (c\<lparr>max_output_tokens := None\<rparr>))))
         ''max_output_tokens'' = Some JNull
   \<and> dict_get (posted_body (fst (search_models w api_key base (c\<lparr>tools := None\<rparr>))))
         ''tools'' = Some JNull
   \<and> dict_get (posted_body (fst (search_models w api_key base (c\<lparr>multilingual := None\<rparr>))))
         ''multilingual'' = Some JNull
   \<and> dict_get (posted_body (fst (search_models w api_key base (c\<lparr>audio := None\<rparr>))))
         ''audio'' = Some JNull
   \<and> dict_get (posted_body (fst (search_models w api_key base (c\<lparr>vision := None\<rparr>))))
         ''vision'' = Some JNull
   \<and> dict_get (posted_body (fst (search_models w api_key base (c\<lparr>reasoning := None\<rparr>))))
         ''reasoning'' = Some JNull
   \<and> dict_get (posted_body (fst (search_models w api_key base (c\<lparr>fine_tuning := None\<rparr>))))
         ''fine_tuning'' = Some JNull
   \<and> dict_get (posted_body (fst (search_models w api_key base (c\<lparr>streaming := None\<rparr>))))
         ''realtime_streaming'' = Some JNull"
proof -
  have p: "fst (search_models w api_key base d) =
             POST api_key (base @ ''/api/agents/search'') (JObj (search_payload d))" for d
    by (simp add: search_models_def session_post_def Let_def)
  have c: "calls (search w api_key base c) = [fst (search_models w api_key base c)]"
    by (simp add: search_def search_models_def Let_def split: sum.splits)
  show ?thesis
    unfolding c p
    by (simp add: posted_body_def search_payload_def dict_keys_def dict_get_def json_str_def
        json_int_def json_bool_def)
qed

text \<open>
  C2: the search command issues one POST to the search endpoint whose body is the metadata
  envelope (\<^verbatim>\<open>agent_id\<close>, \<^verbatim>\<open>task_id\<close>) together with the twelve criteria fields, thirteen
  entries in all; an unset field is present with the value null, a set one with its
  value; without flags every criteria field is null.
\<close>

theorem search_posts_every_field:
  "calls (search w api_key base c) =
     [POST api_key (base @ ''/api/agents/search'') (JObj (search_payload c))]
   \<and> length (search_payload c) = 13
   \<and> dict_get (search_payload c) ''metadata'' =
       Some (JObj [(''agent_id'', JStr ''cli''), (''task_id'', JStr ''search'')])
   \<and> dict_get (search_payload c) ''provider'' =
       Some (case provider c of None \<Rightarrow> JNull | Some s \<Rightarrow> JStr s)
   \<and> dict_get (search_payload c) ''min_context'' =
       Some (case min_context c of None \<Rightarrow> JNull | Some i \<Rightarrow> JInt i)
   \<and> dict_get (search_payload c) ''max_context'' =
       Some (case max_context c of None \<Rightarrow> JNull | Some i \<Rightarrow> JInt i)
   \<and> dict_get (search_payload c) ''min_output_tokens'' =
       Some (case min_output_tokens c of None \<Rightarrow> JNull | Some i \<Rightarrow> JInt i)
   \<and> dict_get (search_payload c) ''max_output_tokens'' =
       Some (case max_output_tokens c of None \<Rightarrow> JNull | Some i \<Rightarrow> JInt i)
   \<and> dict_get (search_payload c) ''tools'' =
       Some (case tools c of None \<Rightarrow> JNull | Some b \<Rightarrow> JBool b)
   \<and> dict_get (search_payload c) ''multilingual'' =
       Some (case multilingual c of None \<Rightarrow> JNull | Some b \<Rightarrow> JBool b)
   \<and> dict_get (search_payload c) ''audio'' =
       Some (case audio c of None \<Rightarrow> JNull | Some b \<Rightarrow> JBool b)
   \<and> dict_get (search_payload c) ''vision'' =
       Some (case vision c of None \<Rightarrow> JNull | Some b \<Rightarrow> JBool b)
   \<and> dict_get (search_payload c) ''reasoning'' =
       Some (case reasoning c of None \<Rightarrow> JNull | Some b \<Rightarrow> JBool b)
   \<and> dict_get (search_payload c) ''fine_tuning'' =
       Some (case fine_tuning c of None \<Rightarrow> JNull | Some b \<Rightarrow> JBool b)
   \<and> dict_get (search_payload c) ''realtime_streaming'' =
       Some (case streaming c of None \<Rightarrow> JNull | Some b \<Rightarrow> JBool b)
   \<and> search_payload no_flags =
       [(''metadata'', JObj [(''agent_id'', JStr ''cli''), (''task_id'', JStr ''search'')]),
        (''provider'', JNull), (''min_context'', JNull), (''max_context'', JNull),
        (''min_output_tokens'', JNull), (''max_output_tokens'', JNull), (''tools'', JNull),
        (''multilingual'', JNull), (''audio'', JNull), (''vision'', JNull),
        (''reasoning'', JNull), (''fine_tuning'', JNull), (''realtime_streaming'', JNull)]"
proof -
  have c: "calls (search w api_key base c) =
     [POST api_key (base @ ''/api/agents/search'') (JObj (search_payload c))]"
    by (simp add: search_def search_models_def session_post_def Let_def split: sum.splits)
  have f: "search_payload no_flags =
       [(''metadata'', JObj [(''agent_id'', JStr ''cli''), (''task_id'', JStr ''search'')]),
        (''provider'', JNull), (''min_context'', JNull), (''max_context'', JNull),
        (''min_output_tokens'', JNull), (''max_output_tokens'', JNull), (''tools'', JNull),
        (''multilingual'', JNull), (''audio'', JNull), (''vision'', JNull),
        (''reasoning'', JNull), (''fine_tuning'', JNull), (''realtime_streaming'', JNull)]"
    by (simp add: search_payload_def no_flags_def json_str_def json_int_def json_bool_def)
  show ?thesis
    unfolding c f
    by (simp add: search_payload_def dict_get_def json_str_def json_int_def json_bool_def)
qed



text \<open>
  C4: for a model list whose records have a text provider, \<^verbatim>\<open>get_providers\<close> returns a
  table of counts, not a list of names: its keys are pairwise different and are exactly the
  provider values of the list, and the count under a provider is the number of records
  with that provider.
\<close>

theorem get_providers_counts:
  assumes "\<forall>m\<in>set models. has_text_provider m"
    and "http_list w (GET api_key (base @ ''/api/models/list'')) = Inr models"
  shows "\<exists>counts. get_providers w api_key base =
             (GET api_key (base @ ''/api/models/list''), Inr counts)
           \<and> distinct (map fst counts)
           \<and> set (map fst counts) = provider_values models
           \<and> (\<forall>p c. (p, c) \<in> set counts \<longrightarrow> c = length (models_of_provider p models))"
proof -
  have "get_providers w api_key base =
          (GET api_key (base @ ''/api/models/list''), count_providers [] models)"
    using assms(2) by (simp add: get_providers_def get_models_def request_result_def)
  with count_providers_empty [OF assms(1)] show ?thesis by auto
qed

theorem get_providers_counts_witness:
  "list_all has_text_provider example_models
   \<and> http_list example_world (GET ''k'' (BASE_URL @ ''/api/models/list'')) = Inr example_models
   \<and> (\<exists>counts. get_providers example_world ''k'' BASE_URL =
             (GET ''k'' (BASE_URL @ ''/api/models/list''), Inr counts)
           \<and> distinct (map fst counts)
           \<and> set (map fst counts) = {JStr ''OpenAI'', JStr ''Anthropic''}
           \<and> (\<forall>p c. (p, c) \<in> set counts \<longrightarrow>
                 c = length (models_of_provider p example_models)))"
  using example_models_providers example_world_models
    get_providers_counts [OF example_models_providers example_world_models]
  by (simp add: example_provider_values list_all_iff)

text \<open>
  C5: the number in the \<^verbatim>\<open>Total providers\<close> line of \<^verbatim>\<open>list_providers\<close> is the number of
  distinct provider values of the model list. The counts of the table add up to the number
  of models, which is not what the line shows. An empty model list prints the message
  that no providers are available and no such line.
\<close>

theorem list_providers_total:
  assumes "\<forall>m\<in>set models. has_text_provider m"
    and "http_list w (GET api_key (base @ ''/api/models/list'')) = Inr models"
  shows "\<exists>counts. snd (get_providers w api_key base) = Inr counts
           \<and> sum_list (map snd counts) = length models
           \<and> status (list_providers w api_key base) = Ok
           \<and> out (list_providers w api_key base) =
               (if models = [] then [Echo ''No providers available'']
                else [Grid [''Provider'', ''Models'']
                        (map (\<lambda>(provider, count). [provider, JInt (int count)]) counts),
                      Echo (CHR 0x0A # ''Total providers: ''
                              @ str_nat (card (provider_values models)))])"
proof -
  from count_providers_empty [OF assms(1)] obtain counts where c:
    "count_providers [] models = Inr counts" "distinct (map fst counts)"
    "set (map fst counts) = provider_values models"
    by blast
  have g: "get_providers w api_key base =
          (GET api_key (base @ ''/api/models/list''), Inr counts)"
    using assms(2) c(1) by (simp add: get_providers_def get_models_def request_result_def)
  have n: "card (provider_values models) = length counts"
    using distinct_card [OF c(2)] c(3) by simp
  have e: "counts = [] \<longleftrightarrow> models = []"
  proof
    assume "counts = []"
    with count_providers_total [OF c(1)] show "models = []" by simp
  next
    assume "models = []"
    with c(1) show "counts = []" by simp
  qed
  have s: "sum_list (map snd counts) = length models"
    using count_providers_total [OF c(1)] by simp
  show ?thesis
    using g n e s by (auto simp: list_providers_def)
qed

theorem list_providers_total_witness:
  "list_all has_text_provider example_models
   \<and> http_list example_world (GET ''k'' (BASE_URL @ ''/api/models/list'')) = Inr example_models
   \<and> length example_models = 3
   \<and> (\<exists>counts. snd (get_providers example_world ''k'' BASE_URL) = Inr counts
         \<and> sum_list (map snd counts) = 3
         \<and> out (list_providers example_world ''k'' BASE_URL) =
             [Grid [''Provider'', ''Models'']
                (map (\<lambda>(provider, count). [provider, JInt (int count)]) counts),
              Echo (CHR 0x0A # ''Total providers: 2'')])"
proof -
  have l: "length example_models = 3" "example_models \<noteq> []"
    by (simp_all add: example_models_def)
  have c: "card {JStr ''OpenAI'', JStr ''Anthropic''} = 2" by simp
  have n: "str_nat 2 = ''2''" by code_simp
  show ?thesis
    using example_models_providers example_world_models
      list_providers_total [OF example_models_providers example_world_models]
    by (auto simp: example_provider_values l c n list_all_iff)
qed

text \<open>
  C6, as stated: on a model list with at least two distinct records, \<^verbatim>\<open>sample_spec\<close> never
  selects the same record twice. It fails: \<^verbatim>\<open>random.sample\<close> chooses positions, not
  records. In a list of three with two distinct records, one of them at the positions 0
  and 1, the choice of these two positions prints that record twice, once with the
  counts 1000 and 500 and once with 2000 and 1000.
\<close>

theorem sample_spec_same_record_twice_counterexample:
  "length (remdups twin_models) = 2
   \<and> rand_below twin_world (length twin_models * (length twin_models - 1))
       < length twin_models * (length twin_models - 1)
   \<and> sample_spec twin_world ''k'' BASE_URL TCalculate =
        \<lparr>calls = [GET ''k'' (BASE_URL @ ''/api/models/list'')],
         out = [Dumps 4 (JObj
                  [(''calculations'', JList
                      [JObj (twin_record
                               @ [(''input_tokens'', JInt 1000), (''output_tokens'', JInt 500)]),
                       JObj (twin_record
                               @ [(''input_tokens'', JInt 2000), (''output_tokens'', JInt 1000)])]),
                   (''metadata'', JObj
                      [(''agent_id'', JStr ''cli-sample''),
                       (''task_id'', JStr ''calculation-test''),
                       (''message_id'', JStr ''msg789''),
                       (''thread_id'', JStr ''thread012'')])])],
         status = Ok\<rparr>"
proof -
  have d: "length (remdups twin_models) = 2"
    by (simp add: twin_models_def twin_record_def)
  have l: "length twin_models = 3"
    by (simp add: twin_models_def)
  have r: "rand_below twin_world 6 = 0" "http_list twin_world rq = Inr twin_models" for rq
    by (simp_all add: twin_world_def)
  have u: "dict_set (dict_set twin_record ''input_tokens'' a) ''output_tokens'' b =
             twin_record @ [(''input_tokens'', a), (''output_tokens'', b)]" for a b
    by (simp add: twin_record_def)
  have n: "twin_models ! 0 = twin_record" "twin_models ! Suc 0 = twin_record"
    by (simp_all add: twin_models_def)
  show ?thesis
    by (simp add: d l r u n sample_spec_def get_models_def request_result_def
        random_sample_def sample_positions_3 Let_def)
qed

text \<open>
  C6, amended: on a model list of at least two records, \<^verbatim>\<open>sample_spec\<close> for \<^verbatim>\<open>calculate\<close>
  takes the records at two different positions of the list. The ordered pairs of
  different positions are the equally likely outcomes of the choice: each occurs once
  among them, there are \<open>n (n - 1)\<close> of them for \<open>n\<close> records, and no position is paired
  with itself, so the same record is taken twice only when it stands at two positions of
  the list. The first record taken is printed in the \<^verbatim>\<open>calculations\<close> array with
  \<^verbatim>\<open>input_tokens\<close> 1000 and \<^verbatim>\<open>output_tokens\<close> 500, the second with 2000 and 1000, every
  other field as the service gave it.
\<close>

theorem sample_spec_calculate_positions:
  assumes "http_list w (GET api_key (base @ ''/api/models/list'')) = Inr models"
    and "2 \<le> length models"
    and "rand_below w (length models * (length models - 1))
           < length models * (length models - 1)"
  shows "distinct (sample_positions (length models))
    \<and> length (sample_positions (length models)) = length models * (length models - 1)
    \<and> set (sample_positions (length models)) =
        {(i, j). i < length models \<and> j < length models \<and> i \<noteq> j}
    \<and> (\<exists>i j m0 m1.
          sample_positions (length models) ! rand_below w (length models * (length models - 1))
            = (i, j)
        \<and> i < length models \<and> j < length models \<and> i \<noteq> j
        \<and> (distinct models \<longrightarrow> models ! i \<noteq> models ! j)
        \<and> sample_spec w api_key base TCalculate =
            \<lparr>calls = [GET api_key (base @ ''/api/models/list'')],
             out = [Dumps 4 (JObj
                      [(''calculations'', JList [JObj m0, JObj m1]),
                       (''metadata'', JObj
                          [(''agent_id'', JStr ''cli-sample''),
                           (''task_id'', JStr ''calculation-test''),
                           (''message_id'', JStr ''msg789''),
                           (''thread_id'', JStr ''thread012'')])])],
             status = Ok\<rparr>
        \<and> dict_get m0 ''input_tokens'' = Some (JInt 1000)
        \<and> dict_get m0 ''output_tokens'' = Some (JInt 500)
        \<and> dict_get m1 ''input_tokens'' = Some (JInt 2000)
        \<and> dict_get m1 ''output_tokens'' = Some (JInt 1000)
        \<and> (\<forall>k. k \<noteq> ''input_tokens'' \<and> k \<noteq> ''output_tokens'' \<longrightarrow>
               dict_get m0 k = dict_get (models ! i) k
             \<and> dict_get m1 k = dict_get (models ! j) k))"
proof -
  let ?n = "length models"
  let ?r = "rand_below w (?n * (?n - 1))"
  obtain i j where d: "sample_positions ?n ! ?r = (i, j)"
    by (cases "sample_positions ?n ! ?r")
  from nth_sample_positions [OF assms(3) d]
  have v: "i < ?n" "j < ?n" "i \<noteq> j" by simp_all
  then have n: "distinct models \<longrightarrow> models ! i \<noteq> models ! j"
    by (simp add: nth_eq_iff_index_eq)
  let ?m0 = "dict_update (models ! i) [(''input_tokens'', JInt 1000), (''output_tokens'', JInt 500)]"
  let ?m1 = "dict_update (models ! j) [(''input_tokens'', JInt 2000), (''output_tokens'', JInt 1000)]"
  have s: "sample_spec w api_key base TCalculate =
        \<lparr>calls = [GET api_key (base @ ''/api/models/list'')],
         out = [Dumps 4 (JObj
                  [(''calculations'', JList [JObj ?m0, JObj ?m1]),
                   (''metadata'', JObj
                      [(''agent_id'', JStr ''cli-sample''),
                       (''task_id'', JStr ''calculation-test''),
                       (''message_id'', JStr ''msg789''),
                       (''thread_id'', JStr ''thread012'')])])],
         status = Ok\<rparr>"
    using assms(1,2) d
    by (simp add: sample_spec_def get_models_def request_result_def random_sample_def Let_def)
  have g: "dict_get ?m0 ''input_tokens'' = Some (JInt 1000)"
    "dict_get ?m0 ''output_tokens'' = Some (JInt 500)"
    "dict_get ?m1 ''input_tokens'' = Some (JInt 2000)"
    "dict_get ?m1 ''output_tokens'' = Some (JInt 1000)"
    by (simp_all only: dict_get_update_tokens) simp_all
  have r: "\<forall>k. k \<noteq> ''input_tokens'' \<and> k \<noteq> ''output_tokens'' \<longrightarrow>
           dict_get ?m0 k = dict_get (models ! i) k \<and> dict_get ?m1 k = dict_get (models ! j) k"
    by (simp only: dict_get_update_tokens) simp
  from d v n s g r have "\<exists>i j m0 m1.
          sample_positions ?n ! ?r = (i, j)
        \<and> i < ?n \<and> j < ?n \<and> i \<noteq> j
        \<and> (distinct models \<longrightarrow> models ! i \<noteq> models ! j)
        \<and> sample_spec w api_key base TCalculate =
            \<lparr>calls = [GET api_key (base @ ''/api/models/list'')],
             out = [Dumps 4 (JObj
                      [(''calculations'', JList [JObj m0, JObj m1]),
                       (''metadata'', JObj
                          [(''agent_id'', JStr ''cli-sample''),
                           (''task_id'', JStr ''calculation-test''),
                           (''message_id'', JStr ''msg789''),
                           (''thread_id'', JStr ''thread012'')])])],
             status = Ok\<rparr>
        \<and> dict_get m0 ''input_tokens'' = Some (JInt 1000)
        \<and> dict_get m0 ''output_tokens'' = Some (JInt 500)
        \<and> dict_get m1 ''input_tokens'' = Some (JInt 2000)
        \<and> dict_get m1 ''output_tokens'' = Some (JInt 1000)
        \<and> (\<forall>k. k \<noteq> ''input_tokens'' \<and> k \<noteq> ''output_tokens'' \<longrightarrow>
               dict_get m0 k = dict_get (models ! i) k
             \<and> dict_get m1 k = dict_get (models ! j) k)"
    by blast
  with distinct_sample_positions [of ?n] length_sample_positions [of ?n]
    set_sample_positions [of ?n]
  show ?thesis by blast
qed

theorem sample_spec_calculate_positions_witness:
  "http_list example_world (GET ''k'' (BASE_URL @ ''/api/models/list'')) = Inr example_models
   \<and> 2 \<le> length example_models
   \<and> rand_below example_world (length example_models * (length example_models - 1))
       < length example_models * (length example_models - 1)
   \<and> sample_positions (length example_models)
       ! rand_below example_world (length example_models * (length example_models - 1)) = (2, 0)
   \<and> sample_spec example_world ''k'' BASE_URL TCalculate =
        \<lparr>calls = [GET ''k'' (BASE_URL @ ''/api/models/list'')],
         out = [Dumps 4 (JObj
                  [(''calculations'', JList
                      [JObj [(''provider'', JStr ''Anthropic''), (''model_family'', JStr ''Claude''),
                             (''model_name'', JStr ''Sonnet''), (''input_tokens'', JInt 1000),
                             (''output_tokens'', JInt 500)],
                       JObj [(''provider'', JStr ''OpenAI''), (''model_family'', JStr ''GPT''),
                             (''model_name'', JStr ''GPT-4''), (''input_tokens'', JInt 2000),
                             (''output_tokens'', JInt 1000)]]),
                   (''metadata'', JObj
                      [(''agent_id'', JStr ''cli-sample''),
                       (''task_id'', JStr ''calculation-test''),
                       (''message_id'', JStr ''msg789''),
                       (''thread_id'', JStr ''thread012'')])])],
         status = Ok\<rparr>"
proof -
  have n: "length example_models = 3" by (simp add: example_models_def)
  have l: "2 \<le> length example_models" by (simp add: n)
  have b: "rand_below example_world N = 4" for N by (simp add: example_world_def)
  have v: "rand_below example_world (length example_models * (length example_models - 1))
             < length example_models * (length example_models - 1)"
    by (simp add: n b)
  have p: "sample_positions (length example_models)
       ! rand_below example_world (length example_models * (length example_models - 1)) = (2, 0)"
    by (simp add: n b sample_positions_3)
  have e: "sample_spec example_world ''k'' BASE_URL TCalculate =
        \<lparr>calls = [GET ''k'' (BASE_URL @ ''/api/models/list'')],
         out = [Dumps 4 (JObj
                  [(''calculations'', JList
                      [JObj [(''provider'', JStr ''Anthropic''), (''model_family'', JStr ''Claude''),
                             (''model_name'', JStr ''Sonnet''), (''input_tokens'', JInt 1000),
                             (''output_tokens'', JInt 500)],
                       JObj [(''provider'', JStr ''OpenAI''), (''model_family'', JStr ''GPT''),
                             (''model_name'', JStr ''GPT-4''), (''input_tokens'', JInt 2000),
                             (''output_tokens'', JInt 1000)]]),
                   (''metadata'', JObj
                      [(''agent_id'', JStr ''cli-sample''),
                       (''task_id'', JStr ''calculation-test''),
                       (''message_id'', JStr ''msg789''),
                       (''thread_id'', JStr ''thread012'')])])],
         status = Ok\<rparr>"
    using p example_world_models
    by (simp add: sample_spec_def get_models_def request_result_def random_sample_def n Let_def)
       (simp add: example_models_def)
  show ?thesis
    using example_world_models l v p e
      sample_spec_calculate_positions [OF example_world_models l v]
    by simp
qed

text \<open>
  C7: every subcommand reports a failed request as one error message and prints nothing
  else. \<^verbatim>\<open>sample_spec\<close> does not: when the service cannot be reached, the
  \<^verbatim>\<open>RequestException\<close> of its request for the model list is caught by nobody, where
  \<^verbatim>\<open>list_models\<close> on the same request raises the \<^verbatim>\<open>ClickException\<close>.
\<close>

theorem sample_spec_request_failure_uncaught:
  "sample_spec offline_world ''k'' BASE_URL TCompare =
     \<lparr>calls = [GET ''k'' (BASE_URL @ ''/api/models/list'')], out = [],
      status = Uncaught (RequestException ''Connection refused'')\<rparr>
   \<and> list_models offline_world ''k'' BASE_URL [] =
     \<lparr>calls = [GET ''k'' (BASE_URL @ ''/api/models/list'')], out = [],
      status = ClickException ''API request failed: Connection refused''\<rparr>"
  by (simp add: sample_spec_def list_models_def get_models_def request_result_def
      offline_world_def except_request_def)

text \<open>
  C8: when the environment variable of the API key is unset or empty, every invocation ends
  with the \<^verbatim>\<open>ClickException\<close> of the group callback: no subcommand has run, no request
  has been issued and nothing has been printed.
\<close>

theorem missing_api_key_is_fatal:
  "API_KEY = None \<or> API_KEY = Some [] \<Longrightarrow>
   invoke w API_KEY server cmd =
     \<lparr>calls = [], out = [],
      status = ClickException ''COMPARER_API_KEY environment variable not set''\<rparr>"
  by (auto simp: invoke_def cli_def truthy_def)

theorem missing_api_key_is_fatal_witness:
  "invoke example_world None None ListProviders =
     \<lparr>calls = [], out = [],
      status = ClickException ''COMPARER_API_KEY environment variable not set''\<rparr>
   \<and> invoke example_world (Some []) (Some ''http://localhost:8000'') (SampleSpec TCompare) =
     \<lparr>calls = [], out = [],
      status = ClickException ''COMPARER_API_KEY environment variable not set''\<rparr>"
  using missing_api_key_is_fatal [of None example_world None ListProviders]
    missing_api_key_is_fatal [of "Some []" example_world "Some ''http://localhost:8000''"
      "SampleSpec TCompare"]
  by simp




text \<open>
  C10: on a model list whose records may lack any of \<^verbatim>\<open>provider\<close>, \<^verbatim>\<open>model_family\<close> and
  \<^verbatim>\<open>model_name\<close> (the fields that are there being text, or the search string being
  empty), \<^verbatim>\<open>list_models\<close> ends normally. The filter reads a missing field as the empty
  string: the records shown are those of \<open>shown_models\<close>, and a record shown for a
  non-empty search string matches in a field it has. The table shows \<^verbatim>\<open>N/A\<close> for each
  missing field. About \<^verbatim>\<open>str.lower()\<close> it is used that the empty string stays empty and a
  non-empty one stays non-empty.
\<close>

theorem list_models_missing_fields:
  assumes "S = [] \<or> (\<forall>m\<in>set models. text_fields m)"
    and "http_list w (GET api_key (base @ ''/api/models/list'')) = Inr models"
    and "str_lower w [] = []"
    and "S \<noteq> [] \<longrightarrow> str_lower w S \<noteq> []"
  shows "status (list_models w api_key base S) = Ok
     \<and> out (list_models w api_key base S) =
         (if shown_models w S models = [] then
            [Echo (if S \<noteq> [] then ''No models found matching search: '' @ str_lower w S
                   else ''No models available'')]
          else
            [Grid [''Provider'', ''Model Family'', ''Model Name'']
               (map shown_row (shown_models w S models)),
             Echo (CHR 0x0A # ''Total models: ''
                     @ str_nat (length (shown_models w S models)))])
     \<and> (\<forall>m\<in>set models. \<forall>k\<in>set name_fields.
           dict_get m k = None \<longrightarrow> lower_field w m k = Inr [])
     \<and> (S \<noteq> [] \<longrightarrow>
          (\<forall>m\<in>set (shown_models w S models).
             \<exists>k\<in>set name_fields. \<exists>v. dict_get m k = Some (JStr v)
                \<and> contains (str_lower w S) (str_lower w v)))"
proof -
  note t = list_models_text [OF assms(1,2)]
  have a: "status (list_models w api_key base S) = Ok"
    using t by simp
  have b: "out (list_models w api_key base S) =
         (if shown_models w S models = [] then
            [Echo (if S \<noteq> [] then ''No models found matching search: '' @ str_lower w S
                   else ''No models available'')]
          else
            [Grid [''Provider'', ''Model Family'', ''Model Name'']
               (map shown_row (shown_models w S models)),
             Echo (CHR 0x0A # ''Total models: ''
                     @ str_nat (length (shown_models w S models)))])"
    using t assms(4) model_row_shown by (auto cong: map_cong)
  have c: "\<forall>m\<in>set models. \<forall>k\<in>set name_fields.
           dict_get m k = None \<longrightarrow> lower_field w m k = Inr []"
    using assms(3) by (simp add: lower_field_missing)
  have d: "\<exists>k\<in>set name_fields. \<exists>v. dict_get m k = Some (JStr v)
             \<and> contains (str_lower w S) (str_lower w v)"
    if "S \<noteq> []" and "m \<in> set (shown_models w S models)" for m
  proof -
    from that obtain k where k: "k \<in> set name_fields"
      "contains (str_lower w S) (str_lower w (field_text m k))"
      by (auto simp: shown_models_def list_ex_iff)
    from that(1) assms(4) have "str_lower w S \<noteq> []" by simp
    with k(2) assms(3) have "field_text m k \<noteq> []" by auto
    then obtain v where "dict_get m k = Some (JStr v)" "field_text m k = v"
      by (auto simp: field_text_def split: option.splits json.splits)
    with k show ?thesis by auto
  qed
  from a b c d show ?thesis by blast
qed

theorem list_models_missing_fields_witness:
  "list_all text_fields example_models
   \<and> http_list example_world (GET ''k'' (BASE_URL @ ''/api/models/list'')) = Inr example_models
   \<and> str_lower example_world [] = []
   \<and> str_lower example_world ''O1'' = ''o1''
   \<and> dict_get [(''provider'', JStr ''OpenAI''), (''model_name'', JStr ''o1'')] ''model_family''
       = None
   \<and> shown_models example_world ''O1'' example_models =
       [[(''provider'', JStr ''OpenAI''), (''model_name'', JStr ''o1'')]]
   \<and> status (list_models example_world ''k'' BASE_URL ''O1'') = Ok
   \<and> out (list_models example_world ''k'' BASE_URL ''O1'') =
         [Grid [''Provider'', ''Model Family'', ''Model Name'']
            [[JStr ''OpenAI'', JStr ''N/A'', JStr ''o1'']],
          Echo (CHR 0x0A # ''Total models: 1'')]"
proof -
  have t: "''O1'' = [] \<or> (\<forall>m\<in>set example_models. text_fields m)"
    using example_models_text by simp
  have "ascii_lower ''O1'' = ''o1''" by code_simp
  then have o: "str_lower example_world ''O1'' = ''o1''"
    by (simp add: example_world_def)
  then have e: "''O1'' \<noteq> [] \<longrightarrow> str_lower example_world ''O1'' \<noteq> []" by simp
  have d: "dict_get [(''provider'', JStr ''OpenAI''), (''model_name'', JStr ''o1'')]
             ''model_family'' = None"
    by (simp add: dict_get_def)
  have m: "shown_models example_world ''O1'' example_models =
             [[(''provider'', JStr ''OpenAI''), (''model_name'', JStr ''o1'')]]"
    by code_simp
  have r: "shown_row [(''provider'', JStr ''OpenAI''), (''model_name'', JStr ''o1'')] =
             [JStr ''OpenAI'', JStr ''N/A'', JStr ''o1'']"
    by (simp add: shown_row_def name_fields_def dict_get_def)
  have n: "str_nat (Suc 0) = ''1''" by code_simp
  show ?thesis
    using example_models_text example_world_models example_lower_empty o d
      list_models_missing_fields [OF t example_world_models example_lower_empty e]
    by (simp add: m r n list_all_iff)
qed

end
